theory Spec2Isabelle
  imports Main "HOL-Library.Sublist" "HOL-Library.AList"
begin

section \<open>Python values, console output and the outside world\<close>

text \<open>
  Python strings are modelled as \<open>string\<close> (lists of characters) and \<open>bytes\<close> likewise:
  \<open>s.startswith(p)\<close> is \<open>prefix p s\<close>, the slice \<open>s[12:]\<close> is \<open>drop 12 s\<close>, and
  \<open>p in s\<close> is \<open>sublist p s\<close>. Characters outside ASCII in the source's literals (the
  pictographs that decorate its messages and paths) are left out of the model's literals.
  \<open>truthy\<close> is Python's truth test on a value that is \<open>None\<close> or a string, a byte string
  or a list: \<open>None\<close> and the empty value are false.
\<close>

type_synonym bytes = string

definition truthy :: "'a list option \<Rightarrow> bool" where
  "truthy v = (case v of None \<Rightarrow> False | Some s \<Rightarrow> s \<noteq> [])"

text \<open>\<open>str(n)\<close> for a natural number: its decimal digits.\<close>

function str_nat :: "nat \<Rightarrow> string" where
  "str_nat n =
     (if n < 10 then [char_of (48 + n)] else str_nat (n div 10) @ [char_of (48 + n mod 10)])"
  by pat_completeness auto
termination
  by (relation "measure id") auto

declare str_nat.simps [simp del]

text \<open>
  A call into a library or over the network either raises or replies. What it replies is
  not decided by the program, so every such call is answered by a field of the environment
  (\<open>env\<close> below), which may look at everything that has happened so far.
\<close>

datatype 'a reply = Raises | Replies 'a

record response =
  status_code :: nat
  content_type :: string
  body_text :: string

text \<open>
  The JSON bodies the program sends. \<open>CreateAsset subtype fileName importedBy\<close> is the
  asset-creation payload (its two time stamps, read from the wall clock, are left out: no
  branch of the program looks at them); \<open>AddResources asset_id\<close> is the album payload.
\<close>

datatype json_payload =
    CreateAsset string string string
  | AddResources string

datatype payload = NoPayload | JsonData json_payload | RawData bytes

record request =
  req_method :: string
  req_url :: string
  req_headers :: "(string \<times> string option) list"
  req_payload :: payload
  req_stream :: bool
  req_params :: "(string \<times> string) list"

datatype exn =
    HTTPError response
  | ConnectionError
  | RequestException string
  | ValueError string
  | AttributeError
  | JSONDecodeError
  | KeyError
  | TypeError
  | OverflowError

text \<open>
  The files of a Drive listing are dictionaries; a missing key is \<open>None\<close>.
\<close>

record drive_file =
  df_name :: "string option"
  df_id :: "string option"
  df_mimeType :: "string option"

text \<open>
  The messages are the calls of \<open>console.print\<close>, one constructor per call site, carrying
  the values the message formats: those of the sync loop and the download, those of the
  upload routine and the request client, those of the Drive listing and those of the album
  listing.
\<close>

datatype sync_msg =
    MsgNoFilesToSync
  | MsgStartingSync string
  | MsgProcessingBatch nat nat
  | MsgSkippingNoId string
  | MsgFailedContent string
  | MsgSyncComplete
  | MsgDownloading string
  | MsgDownloaded string
  | MsgErrorDownloading string

datatype upload_msg =
    MsgSkippingUpload string
  | MsgUploading string string
  | MsgGeneratedAssetId string
  | MsgCreatingAsset string string
  | MsgAssetCreated
  | MsgUploadingBinary string
  | MsgBinaryUploaded
  | MsgAddingToAlbum string string
  | MsgAlbumWarning nat
  | MsgAddedToAlbum
  | MsgUploadedOk string
  | MsgHTTPErrorUploading string
  | MsgResponseText string
  | MsgGeneralErrorUploading string exn
  | MsgRequestFailed string string

datatype listing_msg =
    MsgListingFiles string
  | MsgNoFilesFound
  | MsgFoundFiles nat
  | MsgFileLine "string option" "string option" "string option"
  | MsgErrorListing

datatype album_msg =
    MsgNoCatalogId
  | MsgFetchingAlbums string "(string \<times> int) list"
  | MsgStatus nat
  | MsgNextPageLink "string option"
  | MsgFoundAlbums nat
  | MsgUnexpectedStructure
  | MsgCatalogNotFound
  | MsgAuthFailed
  | MsgAccessDenied
  | MsgErrorStatus nat string
  | MsgException exn

datatype msg =
    Sync sync_msg
  | Upload upload_msg
  | Listing listing_msg
  | Album album_msg

text \<open>
  What the program does to the outside world, in order: it prints a message, sends a request
  through the Adobe request client, sends a plain GET (the album selector calls
  \<open>requests.get\<close> itself), or calls the Drive service. A request is kept with the
  answer it got.
\<close>

datatype drive_call =
    FilesList string string
  | FilesGetMedia string
  | FilesGet string string

datatype event =
    Print msg
  | Http request "response reply"
  | HttpGet string "(string \<times> string option) list option" "(string \<times> int) list"
      "response reply"
  | Drive drive_call

type_synonym trace = "event list"

text \<open>
  The value a Python call hands back, where the model has to tell \<open>None\<close> from a list.
\<close>

datatype pyval = PyNone | PyBool bool | PyList "pyval list"

section \<open>Response unwrapping (auth/adobe\_auth.py)\<close>

definition adobe_prefix :: string where
  "adobe_prefix = ''while (1) {}''"

definition strip_adobe_prefix :: "string \<Rightarrow> string" where
  "strip_adobe_prefix raw_response_text =
     (if prefix adobe_prefix raw_response_text then drop 12 raw_response_text
      else raw_response_text)"

section \<open>The Adobe session and the authenticated request client (auth/adobe\_auth.py)\<close>

text \<open>
  A \<open>datetime\<close> is a count of microseconds since 0001-01-01T00:00:00, the least value
  the type has. A stamp read back from the token file is naive, as \<open>\_save\_tokens\<close> writes
  it, or carries a UTC offset (\<open>Aware\<close>); comparing an aware stamp with the naive
  \<open>datetime.now()\<close> raises.
\<close>

datatype stamp = Naive int | Aware

text \<open>
  The fields of an \<open>AdobeLightroomAuth\<close> object. \<open>account_info\<close> is set by
  \<open>test\_connection\<close> only: \<open>None\<close> is the attribute not being there, \<open>Some i\<close> is the
  account dictionary with \<open>i\<close> its \<open>id\<close> entry.
\<close>

record adobe_auth =
  client_id :: "string option"
  client_secret :: "string option"
  access_token :: "string option"
  refresh_token :: "string option"
  token_expires :: "stamp option"
  account_info :: "string option option"

text \<open>
  The environment of the transfer: the Adobe service's answer to a request, the identifier
  \<open>uuid.uuid4()\<close> draws, the outcome of a Drive download, and of a Drive listing. Each may
  depend on the events so far. \<open>MediaIoBaseDownload\<close> is a class of the Google client
  library; the loop that calls its \<open>next\_chunk\<close> until it reports \<open>done\<close> is taken with its
  outcome, the content read back or an exception.
\<close>

record env =
  http :: "trace \<Rightarrow> request \<Rightarrow> response reply"
  uuid4 :: "trace \<Rightarrow> string"
  get_media :: "trace \<Rightarrow> string \<Rightarrow> bytes reply"
  files_list :: "trace \<Rightarrow> string \<Rightarrow> drive_file list option reply"

definition api_base :: string where
  "api_base = ''https://lr.adobe.io''"

definition get_headers :: "adobe_auth \<Rightarrow> (string \<times> string option) list option" where
  "get_headers auth =
     (if \<not> truthy (access_token auth) then None
      else Some [(''Authorization'', Some (''Bearer '' @ the (access_token auth))),
                 (''X-API-Key'', client_id auth),
                 (''Content-Type'', Some ''application/json'')])"

text \<open>\<open>d.update(h)\<close> on dictionaries kept as association lists in insertion order.\<close>

definition dict_update ::
  "('k \<times> 'v) list \<Rightarrow> ('k \<times> 'v) list \<Rightarrow> ('k \<times> 'v) list" where
  "dict_update d h = fold (\<lambda>(k, v). AList.update k v) h d"

text \<open>\<open>response.raise\_for\_status()\<close> raises for the status codes 400 to 599.\<close>

definition raises_for_status :: "response \<Rightarrow> bool" where
  "raises_for_status r = (400 \<le> status_code r \<and> status_code r < 600)"

text \<open>
  \<open>make\_authenticated\_request\<close>. Without an access token it raises before anything is
  sent. A failure of the transport and an error status both leave through the handler,
  which prints and raises again. The handler's second print is guarded by the truth value
  of \<open>e.response\<close>, which is false for a missing response and for every response with an
  error status, so it never prints.
\<close>

definition make_authenticated_request ::
  "env \<Rightarrow> adobe_auth \<Rightarrow> string \<Rightarrow> string \<Rightarrow> (string \<times> string option) list \<Rightarrow>
   json_payload option \<Rightarrow> bytes option \<Rightarrow> bool \<Rightarrow> (string \<times> string) list \<Rightarrow>
   string option \<Rightarrow> trace \<Rightarrow> (exn + response) \<times> trace" where
  "make_authenticated_request e auth method endpoint headers json_data data stream params
       base_url t =
     (if \<not> truthy (access_token auth)
      then (Inl (RequestException ''No access token available for Adobe API request.''), t)
      else
        let target_base = (if truthy base_url then the base_url else api_base);
            url = target_base @ endpoint;
            combined_headers = dict_update (the (get_headers auth)) headers;
            req = \<lparr>req_method = method, req_url = url, req_headers = combined_headers,
                   req_payload = (case json_data of Some j \<Rightarrow> JsonData j
                                  | None \<Rightarrow> (case data of Some d \<Rightarrow> RawData d
                                              | None \<Rightarrow> NoPayload)),
                   req_stream = stream, req_params = params\<rparr>;
            answer = http e t req;
            t1 = t @ [Http req answer]
        in case answer of
             Raises \<Rightarrow>
               (Inl ConnectionError, t1 @ [Print (Upload (MsgRequestFailed method url))])
           | Replies response \<Rightarrow>
               if raises_for_status response
               then (Inl (HTTPError response),
                     t1 @ [Print (Upload (MsgRequestFailed method url))])
               else if sublist ''application/json'' (content_type response) \<and> \<not> stream
               then (Inr (response\<lparr>body_text := strip_adobe_prefix (body_text response)\<rparr>),
                     t1)
               else (Inr response, t1))"

section \<open>The transfer pipeline (sync/logic.py)\<close>


definition get_asset_subtype :: "string \<Rightarrow> string" where
  "get_asset_subtype mime_type =
     (if prefix ''image/'' mime_type then ''image''
      else if prefix ''video/'' mime_type then ''video''
      else ''image'')"

text \<open>
  The \<open>try\<close> block of \<open>\_upload\_file\_to\_lightroom\<close> runs the three steps its comments
  number: create the asset, upload the binary data, add the asset to the album. Each step
  is a definition of its own here; its result is the exception that leaves the block
  there, or nothing (the step is done and the block goes on).
\<close>

definition create_asset_step ::
  "env \<Rightarrow> adobe_auth \<Rightarrow> string \<Rightarrow> string \<Rightarrow> string \<Rightarrow> string \<Rightarrow> trace \<Rightarrow>
   (exn + unit) \<times> trace" where
  "create_asset_step e auth catalogue_id asset_id file_name mime_type t =
     (let create_asset_endpoint = ''/v2/catalogs/'' @ catalogue_id @ ''/assets/'' @ asset_id;
          asset_subtype = get_asset_subtype mime_type
      in case account_info auth of
           None \<Rightarrow> (Inl AttributeError, t)
         | Some account_id \<Rightarrow>
             let create_payload =
                   CreateAsset asset_subtype file_name
                     (case account_id of None \<Rightarrow> ''Unknown'' | Some i \<Rightarrow> i);
                 t1 = t @ [Print (Upload (MsgCreatingAsset file_name asset_id))]
             in case make_authenticated_request e auth ''PUT'' create_asset_endpoint
                       [(''Content-Type'', Some ''application/json''),
                        (''If-None-Match'', Some ''*'')]
                       (Some create_payload) None False [] None t1 of
                  (Inl x, t2) \<Rightarrow> (Inl x, t2)
                | (Inr response, t2) \<Rightarrow>
                    if status_code response \<notin> {201, 200}
                    then (Inl (ValueError (''Asset creation failed with status ''
                                 @ str_nat (status_code response))), t2)
                    else (Inr (), t2 @ [Print (Upload MsgAssetCreated)]))"

definition upload_master_step ::
  "env \<Rightarrow> adobe_auth \<Rightarrow> string \<Rightarrow> string \<Rightarrow> bytes \<Rightarrow> string \<Rightarrow> string \<Rightarrow> trace \<Rightarrow>
   (exn + unit) \<times> trace" where
  "upload_master_step e auth catalogue_id asset_id file_content file_name mime_type t =
     (let upload_master_endpoint =
            ''/v2/catalogs/'' @ catalogue_id @ ''/assets/'' @ asset_id @ ''/master'';
          t1 = t @ [Print (Upload (MsgUploadingBinary file_name))];
          upload_headers = [(''Content-Type'', Some mime_type),
                            (''Content-Length'', Some (str_nat (length file_content)))]
      in case make_authenticated_request e auth ''PUT'' upload_master_endpoint upload_headers
                None (Some file_content) False [] None t1 of
           (Inl x, t2) \<Rightarrow> (Inl x, t2)
         | (Inr response, t2) \<Rightarrow>
             if status_code response \<notin> {201, 200}
             then (Inl (ValueError (''Binary upload failed with status ''
                          @ str_nat (status_code response))), t2)
             else (Inr (), t2 @ [Print (Upload MsgBinaryUploaded)]))"

definition add_to_album_step ::
  "env \<Rightarrow> adobe_auth \<Rightarrow> string \<Rightarrow> string \<Rightarrow> string \<Rightarrow> string \<Rightarrow> trace \<Rightarrow>
   (exn + unit) \<times> trace" where
  "add_to_album_step e auth catalogue_id asset_id album_id file_name t =
     (let add_to_album_endpoint =
            ''/v2/catalogs/'' @ catalogue_id @ ''/albums/'' @ album_id @ ''/assets'';
          add_payload = AddResources asset_id;
          t1 = t @ [Print (Upload (MsgAddingToAlbum file_name album_id))]
      in case make_authenticated_request e auth ''PUT'' add_to_album_endpoint
                [(''Content-Type'', Some ''application/json'')]
                (Some add_payload) None False [] None t1 of
           (Inl x, t2) \<Rightarrow> (Inl x, t2)
         | (Inr response, t2) \<Rightarrow>
             (Inr (), t2 @ [Print (Upload (if status_code response \<notin> {201, 200}
                                           then MsgAlbumWarning (status_code response)
                                           else MsgAddedToAlbum))]))"

definition upload_steps ::
  "env \<Rightarrow> adobe_auth \<Rightarrow> string \<Rightarrow> bytes \<Rightarrow> string \<Rightarrow> string \<Rightarrow> string \<Rightarrow> trace \<Rightarrow>
   (exn + bool) \<times> trace" where
  "upload_steps e auth catalogue_id file_content file_name album_id mime_type t =
     (let asset_id = filter (\<lambda>c. c \<noteq> CHR ''-'') (uuid4 e t);
          t1 = t @ [Print (Upload (MsgGeneratedAssetId asset_id))]
      in case create_asset_step e auth catalogue_id asset_id file_name mime_type t1 of
           (Inl x, t2) \<Rightarrow> (Inl x, t2)
         | (Inr u, t2) \<Rightarrow>
      case upload_master_step e auth catalogue_id asset_id file_content file_name
             mime_type t2 of
           (Inl x, t3) \<Rightarrow> (Inl x, t3)
         | (Inr u, t3) \<Rightarrow>
      case add_to_album_step e auth catalogue_id asset_id album_id file_name t3 of
           (Inl x, t4) \<Rightarrow> (Inl x, t4)
         | (Inr u, t4) \<Rightarrow> (Inr True, t4 @ [Print (Upload (MsgUploadedOk file_name))]))"

text \<open>
  \<open>\_upload\_file\_to\_lightroom\<close>: the guard on the content, then the \<open>try\<close> block with its
  two handlers. Both handlers print and return \<open>False\<close>.
\<close>

definition upload_file_to_lightroom ::
  "env \<Rightarrow> adobe_auth \<Rightarrow> string \<Rightarrow> bytes option \<Rightarrow> string \<Rightarrow> string \<Rightarrow> string \<Rightarrow> trace \<Rightarrow>
   bool \<times> trace" where
  "upload_file_to_lightroom e auth catalogue_id file_content file_name album_id mime_type t =
     (if \<not> truthy file_content
      then (False, t @ [Print (Upload (MsgSkippingUpload file_name))])
      else
        let t0 = t @ [Print (Upload (MsgUploading file_name album_id))]
        in case upload_steps e auth catalogue_id (the file_content) file_name album_id
                  mime_type t0 of
             (Inr b, t') \<Rightarrow> (b, t')
           | (Inl (HTTPError r), t') \<Rightarrow>
               (False, t' @ [Print (Upload (MsgHTTPErrorUploading file_name)),
                             Print (Upload (MsgResponseText (body_text r)))])
           | (Inl x, t') \<Rightarrow>
               (False, t' @ [Print (Upload (MsgGeneralErrorUploading file_name x))]))"









section \<open>Browsing: the album listing and the folder path (ui/menus.py)\<close>

text \<open>
  The body of an album listing once \<open>json.loads\<close> has read it, as far as \<open>list\_albums\<close>
  looks at it: the link to the next page (absent; present with an \<open>href\<close>, empty when
  the value is empty or null; or shaped so that reading \<open>href\<close> raises), and the entry
  \<open>resources\<close> (\<open>None\<close> when it is missing or not a list). An album entry has an optional
  id, an optional payload with optional name and subtype, and optional time stamps.
\<close>

datatype next_entry = NoNext | NextBroken | NextHref string

record album_data =
  ad_id :: "string option"
  ad_payload :: "(string option \<times> string option) option"
  ad_created :: "string option"
  ad_updated :: "string option"

record albums_doc =
  doc_next :: next_entry
  doc_resources :: "album_data list option"

record album_info =
  ai_id :: "string option"
  ai_name :: string
  ai_created :: "string option"
  ai_updated :: "string option"
  ai_subtype :: "string option"

record folder_meta =
  fm_name :: "string option"
  fm_parents :: "string list"

text \<open>
  The environment of the selectors: the answer to a plain GET, what \<open>json.loads\<close> makes
  of a text (\<open>Raises\<close> for text that is not JSON), and the Drive service's answer to a
  metadata lookup.
\<close>

record browse_env =
  http_get :: "trace \<Rightarrow> string \<Rightarrow> (string \<times> string option) list option \<Rightarrow>
               (string \<times> int) list \<Rightarrow> response reply"
  json_loads :: "string \<Rightarrow> albums_doc reply"
  files_get :: "trace \<Rightarrow> string \<Rightarrow> folder_meta reply"

text \<open>The fields of a \<open>LightroomAlbumSelector\<close> that the listing reads.\<close>

record album_selector =
  sel_headers :: "(string \<times> string option) list option"
  catalog_id :: "string option"

definition parse_adobe_response :: "browse_env \<Rightarrow> string \<Rightarrow> albums_doc reply" where
  "parse_adobe_response b response_text =
     (if prefix ''while (1) {}'' response_text then json_loads b (drop 12 response_text)
      else json_loads b response_text)"

definition extract_album_info :: "album_data \<Rightarrow> album_info" where
  "extract_album_info a =
     \<lparr>ai_id = ad_id a,
      ai_name = (case ad_payload a of Some (Some n, s) \<Rightarrow> n | _ \<Rightarrow> ''Unnamed Album''),
      ai_created = ad_created a,
      ai_updated = ad_updated a,
      ai_subtype = (case ad_payload a of Some (n, s) \<Rightarrow> s | None \<Rightarrow> None)\<rparr>"

text \<open>
  The address and the query parameters \<open>list\_albums\<close> computes before it sends the request
  (its local variables \<open>url\<close> and \<open>params\<close>).
\<close>

definition albums_url :: "album_selector \<Rightarrow> string option \<Rightarrow> string" where
  "albums_url sel next_link =
     (if truthy next_link then the next_link
      else api_base @ ''/v2/catalogs/'' @ the (catalog_id sel) @ ''/albums'')"

definition albums_params :: "int option \<Rightarrow> int \<Rightarrow> string option \<Rightarrow> (string \<times> int) list" where
  "albums_params limit offset next_link =
     (if \<not> truthy next_link
      then (case limit of None \<Rightarrow> [] | Some l \<Rightarrow> [(''limit'', l)])
           @ (if offset > 0 then [(''offset'', offset)] else [])
      else [])"

text \<open>
  The \<open>try\<close> block of \<open>list\_albums\<close>: the exception that leaves it, or the pair it
  returns.
\<close>

definition list_albums_try ::
  "browse_env \<Rightarrow> album_selector \<Rightarrow> int option \<Rightarrow> int \<Rightarrow> string option \<Rightarrow> trace \<Rightarrow>
   (exn + album_info list \<times> string option) \<times> trace" where
  "list_albums_try b sel limit offset next_link t =
     (let url = albums_url sel next_link;
          params = albums_params limit offset next_link;
          t1 = t @ [Print (Album (MsgFetchingAlbums url params))];
          answer = http_get b t url (sel_headers sel) params;
          t2 = t1 @ [HttpGet url (sel_headers sel) params answer]
      in case answer of
           Raises \<Rightarrow> (Inl ConnectionError, t2)
         | Replies response \<Rightarrow>
      let t3 = t2 @ [Print (Album (MsgStatus (status_code response)))]
      in if status_code response = 200
         then (case parse_adobe_response b (body_text response) of
                 Raises \<Rightarrow> (Inl JSONDecodeError, t3)
               | Replies data \<Rightarrow>
                   (case doc_next data of
                      NextBroken \<Rightarrow> (Inl KeyError, t3)
                    | nx \<Rightarrow>
                        let next_page_link =
                              (case nx of
                                 NextHref h \<Rightarrow>
                                   if h \<noteq> []
                                   then Some (api_base @ ''/v2/catalogs/''
                                                @ the (catalog_id sel) @ ''/'' @ h)
                                   else None
                               | _ \<Rightarrow> None);
                            t4 = (case nx of
                                    NextHref h \<Rightarrow>
                                      t3 @ [Print (Album (MsgNextPageLink next_page_link))]
                                  | _ \<Rightarrow> t3)
                        in case doc_resources data of
                             Some resources \<Rightarrow>
                               (Inr (filter (\<lambda>a. truthy (ai_id a))
                                       (map extract_album_info resources), next_page_link),
                                t4 @ [Print (Album (MsgFoundAlbums (length resources)))])
                           | None \<Rightarrow>
                               (Inr ([], next_page_link),
                                t4 @ [Print (Album MsgUnexpectedStructure)])))
         else if status_code response = 404
         then (Inr ([], None), t3 @ [Print (Album MsgCatalogNotFound)])
         else if status_code response = 401
         then (Inr ([], None), t3 @ [Print (Album MsgAuthFailed)])
         else if status_code response = 403
         then (Inr ([], None), t3 @ [Print (Album MsgAccessDenied)])
         else (Inr ([], None),
               t3 @ [Print (Album (MsgErrorStatus (status_code response)
                                     (take 200 (body_text response))))]))"

definition list_albums ::
  "browse_env \<Rightarrow> album_selector \<Rightarrow> int option \<Rightarrow> int \<Rightarrow> string option \<Rightarrow> trace \<Rightarrow>
   (album_info list \<times> string option) \<times> trace" where
  "list_albums b sel limit offset next_link t =
     (if \<not> truthy (catalog_id sel)
      then (([], None), t @ [Print (Album MsgNoCatalogId)])
      else case list_albums_try b sel limit offset next_link t of
             (Inr r, t') \<Rightarrow> (r, t')
           | (Inl x, t') \<Rightarrow> (([], None), t' @ [Print (Album (MsgException x))]))"



text \<open>The GET requests in a trace, and the messages with which the album listing reports an error.\<close>

fun gets :: "trace \<Rightarrow> (string \<times> (string \<times> int) list \<times> response reply) list" where
  "gets [] = []"
| "gets (HttpGet url h ps a # t) = (url, ps, a) # gets t"
| "gets (x # t) = gets t"


section \<open>Reading a trace\<close>

text \<open>
  The requests sent through the Adobe request client, each with its answer, in order; the
  events that reach the network (an HTTP request or a call of the Drive service); and the
  milestones of a sync run: \<open>Inl k\<close> where the header of batch \<open>k\<close> is printed, \<open>Inr n\<close>
  where the loop body takes up the file named \<open>n\<close> (the first message it prints for a file
  is the skip message when the file has no id and the download message otherwise).
\<close>

fun exchanges :: "trace \<Rightarrow> (request \<times> response reply) list" where
  "exchanges [] = []"
| "exchanges (Http rq a # t) = (rq, a) # exchanges t"
| "exchanges (x # t) = exchanges t"

text \<open>What a call has added to the trace \<open>t\<close> it started from.\<close>

definition added :: "trace \<Rightarrow> trace \<Rightarrow> trace" where
  "added t t' = drop (length t) t'"

fun is_network :: "event \<Rightarrow> bool" where
  "is_network (Print m) = False"
| "is_network x = True"

definition network_calls :: "trace \<Rightarrow> event list" where
  "network_calls t = filter is_network t"




text \<open>The events the upload routine and the request client can add to a trace.\<close>

fun upload_event :: "event \<Rightarrow> bool" where
  "upload_event (Print (Upload m)) = True"
| "upload_event (Http rq a) = True"
| "upload_event x = False"

section \<open>Concrete sessions and environments\<close>

text \<open>
  A session that is signed in and has its account information, and an Adobe service that
  answers the three requests of an upload with the given status codes, told apart by
  their bodies. Every download succeeds.
\<close>

definition demo_auth :: adobe_auth where
  "demo_auth = \<lparr>client_id = Some ''client'', client_secret = Some ''secret'',
     access_token = Some ''token'', refresh_token = None, token_expires = None,
     account_info = Some (Some ''account'')\<rparr>"

definition status_env :: "nat \<Rightarrow> nat \<Rightarrow> nat \<Rightarrow> env" where
  "status_env create_status upload_status album_status =
     \<lparr>http = (\<lambda>t rq. Replies \<lparr>status_code =
                 (case req_payload rq of
                    JsonData (CreateAsset s n b) \<Rightarrow> create_status
                  | RawData d \<Rightarrow> upload_status
                  | JsonData (AddResources a) \<Rightarrow> album_status
                  | NoPayload \<Rightarrow> 404),
               content_type = ''application/json'', body_text = ''while (1) {}{}''\<rparr>),
      uuid4 = (\<lambda>t. ''7d4f-a1''),
      get_media = (\<lambda>t i. Replies ''JFIF''),
      files_list = (\<lambda>t q. Replies (Some []))\<rparr>"




text \<open>
  A selector with its catalog resolved, and a destination that answers a GET with the
  given status, but with 400 as soon as the request carries a query parameter: it fails
  where an offset or a limit is sent. Its listings hold one album and a link to the next
  page.
\<close>

definition demo_selector :: album_selector where
  "demo_selector = \<lparr>sel_headers = get_headers demo_auth, catalog_id = Some ''cat''\<rparr>"

definition cursor_env :: "nat \<Rightarrow> browse_env" where
  "cursor_env status =
     \<lparr>http_get = (\<lambda>t url h ps. Replies \<lparr>status_code = (if ps = [] then status else 400),
                   content_type = ''application/json'', body_text = ''while (1) {}{}''\<rparr>),
      json_loads = (\<lambda>s. Replies \<lparr>doc_next = NextHref ''albums?after=b'',
                   doc_resources = Some [\<lparr>ad_id = Some ''album-1'',
                     ad_payload = Some (Some ''Holiday'', Some ''collection''),
                     ad_created = None, ad_updated = None\<rparr>]\<rparr>),
      files_get = (\<lambda>t f. Raises)\<rparr>"




section \<open>Acquiring a session (auth/adobe\_auth.py)\<close>

text \<open>
  Times are counted in microseconds since 0001-01-01T00:00:00. A \<open>datetime\<close> ranges up
  to 9999-12-31T23:59:59.999999 and a \<open>timedelta\<close> over 999999999 days either way;
  building a value outside raises \<open>OverflowError\<close>, which is \<open>None\<close> here.
\<close>

definition datetime_max :: int where
  "datetime_max = 3652059 * 86400000000 - 1"

definition timedelta_seconds :: "int \<Rightarrow> int option" where
  "timedelta_seconds n =
     (if - 999999999 \<le> n div 86400 \<and> n div 86400 \<le> 999999999 then Some (n * 1000000)
      else None)"

definition datetime_add :: "int \<Rightarrow> int \<Rightarrow> int option" where
  "datetime_add d delta =
     (if 0 \<le> d + delta \<and> d + delta \<le> datetime_max then Some (d + delta) else None)"

definition five_minutes :: int where
  "five_minutes = 300 * 1000000"

text \<open>
  The token file: missing, unreadable (not JSON), or a dictionary with optional tokens and
  an entry \<open>expires\_at\<close> that is missing or empty, not an ISO stamp, or a stamp. A token
  response: a dictionary with optional tokens and an optional \<open>expires\_in\<close>, a whole
  number of seconds. The token endpoint answers a grant by raising (no connection) or
  with a status and a body, \<open>None\<close> for a body that is not JSON.
\<close>

datatype expires_field = ExpMissing | ExpMalformed | ExpStamp stamp

datatype token_file = NoFile | Unreadable | TokenData "string option" "string option" expires_field

record token_response =
  tr_access_token :: "string option"
  tr_refresh_token :: "string option"
  tr_expires_in :: "int option"

datatype grant = RefreshGrant string | CodeGrant string

text \<open>
  The environment of \<open>authenticate\<close>: the token file, the clock (one instant for the whole
  call), the token endpoint, the file \<open>auth\_code.txt\<close> as the user leaves it
  (\<open>None\<close> when it is not there), and whether the token file can be written. Console
  output is left out of this part of the model; the prompt is taken to be answered and the
  code file, once read, to be removable.
\<close>

record auth_env =
  stored :: token_file
  now :: int
  token_post :: "grant \<Rightarrow> (nat \<times> token_response option) reply"
  auth_code_file :: "string option"
  file_writable :: bool

definition load_tokens :: "auth_env \<Rightarrow> adobe_auth \<Rightarrow> bool \<times> adobe_auth" where
  "load_tokens e a =
     (case stored e of
        NoFile \<Rightarrow> (False, a)
      | Unreadable \<Rightarrow> (False, a)
      | TokenData acc ref exp \<Rightarrow>
          let a1 = a\<lparr>access_token := acc, refresh_token := ref\<rparr>
          in case exp of
               ExpMissing \<Rightarrow> (truthy acc, a1)
             | ExpMalformed \<Rightarrow> (False, a1)
             | ExpStamp s \<Rightarrow> (truthy acc, a1\<lparr>token_expires := Some s\<rparr>))"

definition expires_in_of :: "token_response \<Rightarrow> int" where
  "expires_in_of r = (case tr_expires_in r of None \<Rightarrow> 3600 | Some n \<Rightarrow> n)"

text \<open>
  \<open>\_save\_tokens\<close>: everything is inside one \<open>try\<close> block whose handler returns \<open>False\<close>;
  the fields of the object are assigned after the file has been written.
\<close>

definition save_tokens :: "auth_env \<Rightarrow> adobe_auth \<Rightarrow> token_response \<Rightarrow> bool \<times> adobe_auth" where
  "save_tokens e a r =
     (let expires_in = expires_in_of r
      in case timedelta_seconds expires_in of
           None \<Rightarrow> (False, a)
         | Some delta \<Rightarrow>
             (case datetime_add (now e) delta of
                None \<Rightarrow> (False, a)
              | Some expires_at \<Rightarrow>
                  (case tr_access_token r of
                     None \<Rightarrow> (False, a)
                   | Some tok \<Rightarrow>
                       if \<not> file_writable e then (False, a)
                       else (True, a\<lparr>access_token := Some tok,
                                     refresh_token := (case tr_refresh_token r of
                                                         None \<Rightarrow> refresh_token a
                                                       | Some x \<Rightarrow> Some x),
                                     token_expires := Some (Naive expires_at)\<rparr>))))"

text \<open>
  \<open>\_is\_token\_valid\<close>. The subtraction raises below the least \<open>datetime\<close>, the comparison
  raises for a stamp with a UTC offset; neither is handled.
\<close>

definition is_token_valid :: "auth_env \<Rightarrow> adobe_auth \<Rightarrow> exn + bool" where
  "is_token_valid e a =
     (if \<not> truthy (access_token a) then Inr False
      else case token_expires a of
             None \<Rightarrow> Inr False
           | Some Aware \<Rightarrow> Inl TypeError
           | Some (Naive x) \<Rightarrow>
               (case datetime_add x (- five_minutes) of
                  None \<Rightarrow> Inl OverflowError
                | Some d \<Rightarrow> Inr (now e < d)))"

text \<open>
  \<open>\_refresh\_access\_token\<close>. Its handler takes every \<open>RequestException\<close>: a failed
  connection, the error \<open>raise\_for\_status\<close> raises for a status from 400 to 599, and the
  error of \<open>response.json()\<close> on a body that is not JSON (a \<open>RequestException\<close> in
  \<open>requests\<close> from version 2.27 on).
\<close>

definition refresh_access_token :: "auth_env \<Rightarrow> adobe_auth \<Rightarrow> bool \<times> adobe_auth" where
  "refresh_access_token e a =
     (if \<not> truthy (refresh_token a) then (False, a)
      else case token_post e (RefreshGrant (the (refresh_token a))) of
             Raises \<Rightarrow> (False, a)
           | Replies (status, body) \<Rightarrow>
               if 400 \<le> status \<and> status < 600 then (False, a)
               else (case body of
                       None \<Rightarrow> (False, a)
                     | Some r \<Rightarrow> save_tokens e a r))"

definition exchange_code_for_tokens ::
  "auth_env \<Rightarrow> adobe_auth \<Rightarrow> string \<Rightarrow> bool \<times> adobe_auth" where
  "exchange_code_for_tokens e a auth_code =
     (case token_post e (CodeGrant auth_code) of
        Raises \<Rightarrow> (False, a)
      | Replies (status, body) \<Rightarrow>
          if status \<noteq> 200 then (False, a)
          else (case body of
                  None \<Rightarrow> (False, a)
                | Some r \<Rightarrow> save_tokens e a r))"

text \<open>\<open>s.strip()\<close> on ASCII text: the characters \<open>str.isspace\<close> accepts are removed at both ends.\<close>

definition is_space :: "char \<Rightarrow> bool" where
  "is_space c = (of_char c \<in> {9, 10, 11, 12, 13, 28, 29, 30, 31, 32 :: nat})"

definition py_strip :: "string \<Rightarrow> string" where
  "py_strip s = rev (dropWhile is_space (rev (dropWhile is_space s)))"

definition do_oauth_flow :: "auth_env \<Rightarrow> adobe_auth \<Rightarrow> bool \<times> adobe_auth" where
  "do_oauth_flow e a =
     (case auth_code_file e of
        None \<Rightarrow> (False, a)
      | Some content \<Rightarrow>
          let auth_code = py_strip content
          in if length auth_code < 10 then (False, a)
             else exchange_code_for_tokens e a
                    (if CHR ''&'' \<in> set auth_code
                     then takeWhile (\<lambda>c. c \<noteq> CHR ''&'') auth_code
                     else auth_code))"

text \<open>
  \<open>authenticate\<close>: the result is the exception that leaves it (from the validity check)
  or the boolean it returns, with the object as it then is.
\<close>

definition authenticate :: "auth_env \<Rightarrow> adobe_auth \<Rightarrow> (exn + bool) \<times> adobe_auth" where
  "authenticate e a =
     (if \<not> (truthy (client_id a) \<and> truthy (client_secret a)) then (Inr False, a)
      else
        let oauth = (\<lambda>x. case do_oauth_flow e x of (ok, x') \<Rightarrow> (Inr ok, x'))
        in case load_tokens e a of
             (False, a1) \<Rightarrow> oauth a1
           | (True, a1) \<Rightarrow>
               (case is_token_valid e a1 of
                  Inl x \<Rightarrow> (Inl x, a1)
                | Inr True \<Rightarrow> (Inr True, a1)
                | Inr False \<Rightarrow>
                    if truthy (refresh_token a1)
                    then (case refresh_access_token e a1 of
                            (True, a2) \<Rightarrow> (Inr True, a2)
                          | (False, a2) \<Rightarrow> oauth a2)
                    else oauth a1))"

text \<open>
  The condition the validity check is about: the clock is before the expiry less five
  minutes.
\<close>

definition within_skew :: "int \<Rightarrow> adobe_auth \<Rightarrow> bool" where
  "within_skew clock a =
     (case token_expires a of Some (Naive x) \<Rightarrow> clock < x - five_minutes | _ \<Rightarrow> False)"

text \<open>
  An object as \<open>\_\_init\_\_\<close> leaves it, with credentials; a clock reading in the year 2026;
  and three environments: a stored token that is good for an hour, an expired stored token
  whose refresh is answered with a token that lives 60 seconds, and no stored token with a
  pasted code that is exchanged for a token without \<open>expires\_in\<close>.
\<close>

definition signed_out :: adobe_auth where
  "signed_out = \<lparr>client_id = Some ''client'', client_secret = Some ''secret'',
     access_token = None, refresh_token = None, token_expires = None,
     account_info = None\<rparr>"

definition clock_2026 :: int where
  "clock_2026 = 739925 * 86400000000"

definition good_token_env :: auth_env where
  "good_token_env = \<lparr>stored = TokenData (Some ''access'') (Some ''refresh'')
       (ExpStamp (Naive (clock_2026 + 3600 * 1000000))),
     now = clock_2026, token_post = (\<lambda>g. Raises), auth_code_file = None,
     file_writable = True\<rparr>"

definition short_lived_env :: auth_env where
  "short_lived_env = \<lparr>stored = TokenData (Some ''access'') (Some ''refresh'')
       (ExpStamp (Naive (clock_2026 - 1000000))),
     now = clock_2026,
     token_post = (\<lambda>g. Replies (200, Some \<lparr>tr_access_token = Some ''fresh'',
                     tr_refresh_token = None, tr_expires_in = Some 60\<rparr>)),
     auth_code_file = None, file_writable = True\<rparr>"

definition pasted_code_env :: auth_env where
  "pasted_code_env = \<lparr>stored = NoFile, now = clock_2026,
     token_post = (\<lambda>g. case g of
        CodeGrant c \<Rightarrow> Replies (200, Some \<lparr>tr_access_token = Some ''fresh'',
                        tr_refresh_token = Some ''refresh'', tr_expires_in = None\<rparr>)
      | RefreshGrant r \<Rightarrow> Raises),
     auth_code_file = Some '' eyJ4NXUiOiJpbXNfbmExLWtleS0x&state=lightroom_sync_state  '',
     file_writable = True\<rparr>"

section \<open>Properties\<close>

subsection \<open>Reading traces: helper lemmas\<close>

lemma exchanges_append: "exchanges (xs @ ys) = exchanges xs @ exchanges ys"
  by (induction xs rule: exchanges.induct) simp_all

lemma added_append [simp]: "added t (t @ new) = new"
  by (simp add: added_def)

lemma added_self [simp]: "added t t = []"
  by (simp add: added_def)



lemma upload_event_not_network_or_http:
  "upload_event x \<Longrightarrow> (\<exists>rq a. x = Http rq a) \<or> \<not> is_network x"
  by (cases x rule: upload_event.cases) simp_all


lemma network_calls_append: "network_calls (xs @ ys) = network_calls xs @ network_calls ys"
  by (simp add: network_calls_def)

text \<open>What a call of the request client adds to the trace, by the way it ends.\<close>

lemma request_returns:
  assumes "make_authenticated_request e auth m ep h j d s p b t = (Inr response, t')"
  shows "\<exists>rq raw. t' = t @ [Http rq (Replies raw)] \<and> status_code response = status_code raw
           \<and> \<not> raises_for_status raw \<and> req_method rq = m
           \<and> req_url rq = (if truthy b then the b else api_base) @ ep
           \<and> req_payload rq = (case j of Some x \<Rightarrow> JsonData x
                 | None \<Rightarrow> (case d of Some y \<Rightarrow> RawData y | None \<Rightarrow> NoPayload))"
  using assms
  by (auto simp: make_authenticated_request_def Let_def split: if_splits reply.splits)

lemma request_raises:
  assumes "make_authenticated_request e auth m ep h j d s p b t = (Inl x, t')"
  shows "(t' = t \<and> x = RequestException ''No access token available for Adobe API request.'')
     \<or> (\<exists>rq a. t' = t @ [Http rq a, Print (Upload (MsgRequestFailed m (req_url rq)))]
           \<and> req_method rq = m
           \<and> req_url rq = (if truthy b then the b else api_base) @ ep
           \<and> req_payload rq = (case j of Some x \<Rightarrow> JsonData x
                 | None \<Rightarrow> (case d of Some y \<Rightarrow> RawData y | None \<Rightarrow> NoPayload))
           \<and> ((a = Raises \<and> x = ConnectionError)
              \<or> (\<exists>raw. a = Replies raw \<and> raises_for_status raw \<and> x = HTTPError raw)))"
  using assms
  by (auto simp: make_authenticated_request_def Let_def split: if_splits reply.splits)

subsection \<open>The steps of an upload, by the way each ends\<close>

lemma request_extends:
  assumes "make_authenticated_request e auth m ep h j d s p b t = (res, t')"
  shows "\<exists>new. t' = t @ new \<and> list_all upload_event new"
  using assms
  by (auto simp: make_authenticated_request_def Let_def split: if_splits reply.splits)

lemma create_asset_step_done:
  assumes "create_asset_step e auth cat asset name mime t = (Inr u, t')"
  shows "\<exists>rq raw. t' = t @ [Print (Upload (MsgCreatingAsset name asset)),
                             Http rq (Replies raw), Print (Upload MsgAssetCreated)]
           \<and> status_code raw \<in> {201, 200}"
  using assms
  by (auto simp: create_asset_step_def Let_def
           split: option.splits sum.splits prod.splits if_splits
           dest!: request_returns)

lemma create_asset_step_failed:
  assumes "create_asset_step e auth cat asset name mime t = (Inl x, t')"
  shows "\<exists>new. t' = t @ new \<and> list_all upload_event new
     \<and> Print (Upload MsgAssetCreated) \<notin> set new \<and>
     (exchanges new = [] \<or>
      (\<exists>rq a. exchanges new = [(rq, a)] \<and> req_method rq = ''PUT''
         \<and> req_url rq = api_base @ ''/v2/catalogs/'' @ cat @ ''/assets/'' @ asset
         \<and> account_info auth \<noteq> None
         \<and> req_payload rq = JsonData (CreateAsset (get_asset_subtype mime) name
              (case the (account_info auth) of None \<Rightarrow> ''Unknown'' | Some i \<Rightarrow> i))
         \<and> (a = Raises \<or> (\<exists>raw. a = Replies raw \<and> status_code raw \<notin> {201, 200}))))"
  using assms
  by (auto simp: create_asset_step_def Let_def truthy_def raises_for_status_def
           split: option.splits sum.splits prod.splits if_splits
           dest!: request_returns request_raises)

lemma upload_master_step_done:
  assumes "upload_master_step e auth cat asset content name mime t = (Inr u, t')"
  shows "\<exists>rq raw. t' = t @ [Print (Upload (MsgUploadingBinary name)),
                             Http rq (Replies raw), Print (Upload MsgBinaryUploaded)]
           \<and> status_code raw \<in> {201, 200}"
  using assms
  by (auto simp: upload_master_step_def Let_def
           split: sum.splits prod.splits if_splits
           dest!: request_returns)

lemma upload_master_step_failed:
  assumes "upload_master_step e auth cat asset content name mime t = (Inl x, t')"
  shows "\<exists>new. t' = t @ new \<and> list_all upload_event new \<and> length (exchanges new) \<le> 1"
  using assms
  by (auto simp: upload_master_step_def Let_def
           split: sum.splits prod.splits if_splits
           dest!: request_returns request_raises)

lemma add_to_album_step_done:
  assumes "add_to_album_step e auth cat asset album name t = (Inr u, t')"
  shows "\<exists>rq raw m. t' = t @ [Print (Upload (MsgAddingToAlbum name album)),
                               Http rq (Replies raw), Print (Upload m)]
           \<and> (m = MsgAddedToAlbum \<or> m = MsgAlbumWarning (status_code raw))
           \<and> \<not> raises_for_status raw
           \<and> req_url rq = api_base @ ''/v2/catalogs/'' @ cat @ ''/albums/'' @ album
                             @ ''/assets''
           \<and> req_payload rq = JsonData (AddResources asset)"
  using assms
  by (auto simp: add_to_album_step_def Let_def truthy_def
           split: sum.splits prod.splits if_splits
           dest!: request_returns)

lemma add_to_album_step_failed:
  assumes "add_to_album_step e auth cat asset album name t = (Inl x, t')"
  shows "\<exists>new. t' = t @ new \<and> list_all upload_event new \<and>
     (exchanges new = [] \<or>
      (\<exists>rq a. exchanges new = [(rq, a)] \<and>
         (a = Raises \<or> (\<exists>raw. a = Replies raw \<and> raises_for_status raw))))"
  using assms
  by (auto simp: add_to_album_step_def Let_def
           split: sum.splits prod.splits if_splits
           dest!: request_raises)

lemma upload_steps_create_failure:
  assumes run: "upload_steps e auth cat content name album mime t = (res, t')"
    and first: "exchanges (added t t') = (rq, Replies r) # rest"
    and bad: "status_code r \<notin> {201, 200}"
  shows "rest = [] \<and> (\<exists>x. res = Inl x)
     \<and> Print (Upload MsgAssetCreated) \<notin> set (added t t')
     \<and> req_method rq = ''PUT''
     \<and> req_url rq = api_base @ ''/v2/catalogs/'' @ cat @ ''/assets/''
          @ filter (\<lambda>c. c \<noteq> CHR ''-'') (uuid4 e t)
     \<and> account_info auth \<noteq> None
     \<and> req_payload rq = JsonData (CreateAsset (get_asset_subtype mime) name
             (case the (account_info auth) of None \<Rightarrow> ''Unknown'' | Some i \<Rightarrow> i))"
proof -
  define asset where "asset = filter (\<lambda>c. c \<noteq> CHR ''-'') (uuid4 e t)"
  define t1 where "t1 = t @ [Print (Upload (MsgGeneratedAssetId asset))]"
  obtain c t2 where c: "create_asset_step e auth cat asset name mime t1 = (c, t2)"
    by (cases "create_asset_step e auth cat asset name mime t1") blast
  show ?thesis
  proof (cases c)
    case (Inl x)
    with c run have res: "res = Inl x" "t' = t2"
      by (simp_all add: upload_steps_def Let_def asset_def t1_def)
    from create_asset_step_failed [OF c [unfolded Inl]] res first bad
    show ?thesis
      by (auto simp: t1_def asset_def exchanges_append)
  next
    case (Inr u)
    from create_asset_step_done [OF c [unfolded Inr]] obtain rq0 raw
      where t2: "t2 = t1 @ [Print (Upload (MsgCreatingAsset name asset)),
                            Http rq0 (Replies raw), Print (Upload MsgAssetCreated)]"
        and ok: "status_code raw \<in> {201, 200}"
      by blast
    have "\<exists>new. t' = t2 @ new"
      using run c Inr
      by (auto simp: upload_steps_def Let_def asset_def t1_def
               split: sum.splits prod.splits
               dest!: upload_master_step_done upload_master_step_failed
                      add_to_album_step_done add_to_album_step_failed)
    then obtain new where "t' = t2 @ new" by blast
    with t2 first ok bad show ?thesis
      by (auto simp: t1_def exchanges_append)
  qed
qed

lemma create_asset_step_extends:
  assumes "create_asset_step e auth cat asset name mime t = (res, t')"
  shows "\<exists>new. t' = t @ new \<and> list_all upload_event new"
  using assms create_asset_step_done [of e auth cat asset name mime t _ t']
    create_asset_step_failed [of e auth cat asset name mime t _ t']
  by (cases res) auto

lemma upload_master_step_extends:
  assumes "upload_master_step e auth cat asset content name mime t = (res, t')"
  shows "\<exists>new. t' = t @ new \<and> list_all upload_event new"
  using assms upload_master_step_done [of e auth cat asset content name mime t _ t']
    upload_master_step_failed [of e auth cat asset content name mime t _ t']
  by (cases res) auto

lemma add_to_album_step_extends:
  assumes "add_to_album_step e auth cat asset album name t = (res, t')"
  shows "\<exists>new. t' = t @ new \<and> list_all upload_event new"
  using assms add_to_album_step_done [of e auth cat asset album name t _ t']
    add_to_album_step_failed [of e auth cat asset album name t _ t']
  by (cases res) auto

lemma upload_steps_extends:
  assumes "upload_steps e auth cat content name album mime t = (res, t')"
  shows "\<exists>new. t' = t @ new \<and> list_all upload_event new"
  using assms
  by (auto simp: upload_steps_def Let_def split: sum.splits prod.splits
           dest!: create_asset_step_extends upload_master_step_extends
                  add_to_album_step_extends)


subsection \<open>The album request decides the result of an upload that got that far\<close>

text \<open>
  An upload that has sent three requests, the third answered, returns \<open>True\<close> exactly when
  that answer's status is outside 400-599. The branch that prints the warning and still
  returns \<open>True\<close> is reached for a status such as 204 or 302; a status from 400 to 599
  makes the request client raise, and the routine returns \<open>False\<close>.
\<close>

lemma album_answer_decides:
  assumes run: "upload_file_to_lightroom e auth cat content name album mime t = (ok, t')"
    and three: "exchanges (added t t') = [x1, x2, (rq, Replies r)]"
  shows "ok = (\<not> raises_for_status r)"
proof -
  have content: "truthy content"
    using run three by (auto simp: upload_file_to_lightroom_def split: if_splits)
  define t0 where "t0 = t @ [Print (Upload (MsgUploading name album))]"
  obtain res t1 where steps:
    "upload_steps e auth cat (the content) name album mime t0 = (res, t1)"
    by (cases "upload_steps e auth cat (the content) name album mime t0") blast
  from upload_steps_extends [OF steps] obtain new
    where t1: "t1 = t0 @ new" by blast
  have "\<exists>tail. t' = t1 @ tail \<and> exchanges tail = []"
    using run content steps
    by (auto simp: upload_file_to_lightroom_def Let_def t0_def
             split: sum.splits exn.splits)
  then obtain tail where t': "t' = t1 @ tail" and tail: "exchanges tail = []"
    by blast
  have "added t t' = Print (Upload (MsgUploading name album)) # new @ tail"
    using t1 t' by (simp add: t0_def)
  with three tail have new: "exchanges new = [x1, x2, (rq, Replies r)]"
    by (simp add: exchanges_append)
  have ok: "ok = (res = Inr True)"
    using run content steps
    by (auto simp: upload_file_to_lightroom_def Let_def t0_def
             split: sum.splits exn.splits dest!: upload_steps_extends)
  have "(res = Inr True) = (\<not> raises_for_status r)"
    using steps new t1
    by (auto simp: upload_steps_def Let_def exchanges_append
             split: sum.splits prod.splits
             dest!: create_asset_step_done create_asset_step_failed
                    upload_master_step_done upload_master_step_failed
                    add_to_album_step_done add_to_album_step_failed)
  with ok show ?thesis by simp
qed

text \<open>
  C2, at the input where the code leaves the claim: creation answered 201, the binary
  upload 200, the album request 500. The routine returns \<open>False\<close>; what it prints last is
  the error report of the HTTP-error handler, and the warning of the album step is never
  printed.
\<close>

theorem album_status_500_returns_False:
  "(let run = upload_file_to_lightroom (status_env 201 200 500) demo_auth ''cat''
                (Some ''JFIF'') ''a.jpg'' ''alb'' ''image/jpeg'' []
    in fst run = False
       \<and> map (\<lambda>(rq, a). case a of Raises \<Rightarrow> 0 | Replies r \<Rightarrow> status_code r)
            (exchanges (snd run)) = [201, 200, 500]
       \<and> Print (Upload (MsgAlbumWarning 500)) \<notin> set (snd run)
       \<and> last (snd run) = Print (Upload (MsgResponseText ''while (1) {}{}'')))"
  by (simp add: upload_file_to_lightroom_def upload_steps_def create_asset_step_def
        upload_master_step_def add_to_album_step_def make_authenticated_request_def
        status_env_def demo_auth_def truthy_def raises_for_status_def get_headers_def
        dict_update_def get_asset_subtype_def api_base_def Let_def)

subsection \<open>A failed asset creation ends the item\<close>

text \<open>
  C3. The first request an upload sends is the asset-create request: a PUT to the asset
  endpoint of the catalog, with the creation payload. If it is answered with a status
  outside 200-299, the upload routine returns \<open>False\<close> without ever printing that the asset
  was created (the item has failed at the create step), and it sends no other request:
  neither the PUT of the master binary nor the PUT that adds the asset to the album.
\<close>

theorem create_failure_ends_item:
  assumes run: "upload_file_to_lightroom e auth catalogue_id file_content file_name
                  album_id mime_type t = (ok, t')"
    and first: "exchanges (added t t') = (rq, Replies r) # rest"
    and non_2xx: "status_code r < 200 \<or> 300 \<le> status_code r"
  shows "ok = False \<and> rest = []
     \<and> Print (Upload MsgAssetCreated) \<notin> set (added t t')
     \<and> req_method rq = ''PUT''
     \<and> req_url rq = api_base @ ''/v2/catalogs/'' @ catalogue_id @ ''/assets/''
          @ filter (\<lambda>c. c \<noteq> CHR ''-'')
              (uuid4 e (t @ [Print (Upload (MsgUploading file_name album_id))]))
     \<and> req_payload rq = JsonData (CreateAsset (get_asset_subtype mime_type) file_name
             (case the (account_info auth) of None \<Rightarrow> ''Unknown'' | Some i \<Rightarrow> i))"
proof -
  have content: "truthy file_content"
    using run first by (auto simp: upload_file_to_lightroom_def split: if_splits)
  define t0 where "t0 = t @ [Print (Upload (MsgUploading file_name album_id))]"
  obtain res t1 where steps:
    "upload_steps e auth catalogue_id (the file_content) file_name album_id mime_type t0
       = (res, t1)"
    by (cases "upload_steps e auth catalogue_id (the file_content) file_name album_id
                 mime_type t0") blast
  from upload_steps_extends [OF steps] obtain new
    where t1: "t1 = t0 @ new" by blast
  have "\<exists>tail. t' = t1 @ tail \<and> exchanges tail = []
          \<and> Print (Upload MsgAssetCreated) \<notin> set tail"
    using run content steps
    by (auto simp: upload_file_to_lightroom_def Let_def t0_def
             split: sum.splits exn.splits)
  then obtain tail where t': "t' = t1 @ tail" and tail: "exchanges tail = []"
    and quiet: "Print (Upload MsgAssetCreated) \<notin> set tail"
    by blast
  have new: "added t t' = Print (Upload (MsgUploading file_name album_id)) # new @ tail"
    using t1 t' by (simp add: t0_def)
  with first tail have "exchanges new = (rq, Replies r) # rest"
    by (simp add: exchanges_append)
  with t1 have first0: "exchanges (added t0 t1) = (rq, Replies r) # rest"
    by simp
  have bad: "status_code r \<notin> {201, 200}"
    using non_2xx by auto
  note fact = upload_steps_create_failure [OF steps first0 bad]
  from fact obtain x where res: "res = Inl x" by blast
  have "ok = False"
    using run content steps res
    by (auto simp: upload_file_to_lightroom_def Let_def t0_def split: exn.splits)
  moreover have "Print (Upload MsgAssetCreated) \<notin> set new"
    using fact t1 by simp
  then have "Print (Upload MsgAssetCreated) \<notin> set (added t t')"
    using quiet by (simp add: new)
  ultimately show ?thesis
    using fact by (simp add: t0_def)
qed

theorem create_failure_ends_item_witness:
  "(let run = upload_file_to_lightroom (status_env 412 200 200) demo_auth ''cat''
                (Some ''JFIF'') ''a.jpg'' ''alb'' ''image/jpeg'' []
    in map (\<lambda>(rq, a). (req_url rq, a)) (exchanges (added [] (snd run))) =
         [(''https://lr.adobe.io/v2/catalogs/cat/assets/7d4fa1'',
           Replies \<lparr>status_code = 412, content_type = ''application/json'',
                    body_text = ''while (1) {}{}''\<rparr>)]
       \<and> fst run = False
       \<and> Print (Upload MsgAssetCreated) \<notin> set (added [] (snd run)))"
proof -
  define run where "run = upload_file_to_lightroom (status_env 412 200 200) demo_auth
    ''cat'' (Some ''JFIF'') ''a.jpg'' ''alb'' ''image/jpeg'' []"
  define rq where "rq = \<lparr>req_method = ''PUT'',
    req_url = ''https://lr.adobe.io/v2/catalogs/cat/assets/7d4fa1'',
    req_headers = [(''Authorization'', Some ''Bearer token''),
                   (''X-API-Key'', Some ''client''),
                   (''Content-Type'', Some ''application/json''),
                   (''If-None-Match'', Some ''*'')],
    req_payload = JsonData (CreateAsset ''image'' ''a.jpg'' ''account''),
    req_stream = False, req_params = []\<rparr>"
  define r where "r = \<lparr>status_code = 412, content_type = ''application/json'',
    body_text = ''while (1) {}{}''\<rparr>"
  have run: "upload_file_to_lightroom (status_env 412 200 200) demo_auth ''cat''
               (Some ''JFIF'') ''a.jpg'' ''alb'' ''image/jpeg'' [] = (fst run, snd run)"
    by (simp add: run_def)
  have first: "exchanges (added [] (snd run)) = (rq, Replies r) # []"
    by (simp add: run_def rq_def r_def upload_file_to_lightroom_def upload_steps_def
          create_asset_step_def make_authenticated_request_def status_env_def
          demo_auth_def truthy_def raises_for_status_def get_headers_def dict_update_def
          get_asset_subtype_def api_base_def added_def Let_def)
  have non_2xx: "status_code r < 200 \<or> 300 \<le> status_code r"
    by (simp add: r_def)
  from create_failure_ends_item [OF run first non_2xx] first
  show ?thesis
    by (simp add: run_def [symmetric] rq_def r_def Let_def)
qed

subsection \<open>The expiry of the session that authenticate returns\<close>

lemma save_tokens_True:
  assumes "save_tokens e a r = (True, a')"
  shows "token_expires a' = Some (Naive (now e + 1000000 * expires_in_of r))"
  using assms
  by (auto simp: save_tokens_def timedelta_seconds_def datetime_add_def Let_def
           split: option.splits if_splits)

lemma refresh_access_token_True:
  assumes "refresh_access_token e a = (True, a')"
  shows "\<exists>g n r. token_post e g = Replies (n, Some r) \<and> save_tokens e a r = (True, a')"
  using assms
  by (auto simp: refresh_access_token_def split: if_splits reply.splits option.splits)
     blast+

lemma do_oauth_flow_True:
  assumes "do_oauth_flow e a = (True, a')"
  shows "\<exists>g n r. token_post e g = Replies (n, Some r) \<and> save_tokens e a r = (True, a')"
  using assms
  by (auto simp: do_oauth_flow_def exchange_code_for_tokens_def Let_def
           split: if_splits reply.splits option.splits)
     blast+

lemma is_token_valid_within_skew:
  assumes "is_token_valid e a = Inr True"
  shows "within_skew (now e) a"
  using assms
  by (auto simp: is_token_valid_def within_skew_def datetime_add_def
           split: if_splits option.splits stamp.splits)

lemma fresh_within_skew:
  assumes "token_expires a = Some (Naive (clock + 1000000 * n))"
  shows "within_skew clock a \<longleftrightarrow> 300 < n"
  using assms by (auto simp: within_skew_def five_minutes_def)

text \<open>
  C4 (as amended). When \<open>authenticate\<close> returns \<open>True\<close>, the session either was loaded
  from the token file and has passed the validity check, so the clock is before its
  expiry less five minutes; or it was saved just now from a token response (after a
  refresh or the interactive flow), its expiry is the clock plus the response's
  \<open>expires\_in\<close> (3600 seconds when the response has none), and it is returned without a
  validity check: it meets the five-minute condition exactly when \<open>expires\_in\<close> is more
  than 300 seconds.
\<close>

theorem authenticate_session_expiry:
  assumes "authenticate e a = (Inr True, a')"
  shows "(is_token_valid e a' = Inr True \<and> within_skew (now e) a')
     \<or> (\<exists>g n r. token_post e g = Replies (n, Some r)
           \<and> token_expires a' = Some (Naive (now e + 1000000 * expires_in_of r))
           \<and> (within_skew (now e) a' \<longleftrightarrow> 300 < expires_in_of r))"
proof -
  have fresh: "\<exists>g n r. token_post e g = Replies (n, Some r)
           \<and> token_expires a' = Some (Naive (now e + 1000000 * expires_in_of r))
           \<and> (within_skew (now e) a' \<longleftrightarrow> 300 < expires_in_of r)"
    if "\<exists>g n r. token_post e g = Replies (n, Some r) \<and> save_tokens e x r = (True, a')"
    for x
    using that save_tokens_True fresh_within_skew by blast
  obtain ok a1 where l: "load_tokens e a = (ok, a1)"
    by (cases "load_tokens e a") blast
  from assms l consider
      (stored) "is_token_valid e a' = Inr True"
    | (refreshed) x where "refresh_access_token e x = (True, a')"
    | (interactive) x where "do_oauth_flow e x = (True, a')"
    by (auto simp: authenticate_def Let_def
             split: if_splits prod.splits sum.splits bool.splits)
  then show ?thesis
  proof cases
    case stored
    then show ?thesis
      using is_token_valid_within_skew by blast
  next
    case refreshed
    from fresh [OF refresh_access_token_True [OF this]] show ?thesis
      by blast
  next
    case interactive
    from fresh [OF do_oauth_flow_True [OF this]] show ?thesis
      by blast
  qed
qed

theorem authenticate_session_expiry_witness:
  "fst (authenticate good_token_env signed_out) = Inr True
   \<and> within_skew (now good_token_env) (snd (authenticate good_token_env signed_out))
   \<and> fst (authenticate pasted_code_env signed_out) = Inr True
   \<and> token_expires (snd (authenticate pasted_code_env signed_out))
       = Some (Naive (clock_2026 + 1000000 * 3600))
   \<and> within_skew (now pasted_code_env) (snd (authenticate pasted_code_env signed_out))"
proof -
  have good_ok: "fst (authenticate good_token_env signed_out) = Inr True"
    by (simp add: authenticate_def load_tokens_def is_token_valid_def datetime_add_def
          datetime_max_def five_minutes_def good_token_env_def signed_out_def
          clock_2026_def truthy_def Let_def)
  then have good: "authenticate good_token_env signed_out
     = (Inr True, snd (authenticate good_token_env signed_out))"
    by (metis prod.collapse)
  have stale: "\<And>g n r. token_post good_token_env g \<noteq> Replies (n, Some r)"
    by (simp add: good_token_env_def)
  have pasted_ok: "fst (authenticate pasted_code_env signed_out) = Inr True"
    and expiry: "token_expires (snd (authenticate pasted_code_env signed_out))
       = Some (Naive (clock_2026 + 1000000 * 3600))"
    by (simp_all add: authenticate_def load_tokens_def do_oauth_flow_def py_strip_def
          is_space_def exchange_code_for_tokens_def save_tokens_def expires_in_of_def
          timedelta_seconds_def datetime_add_def datetime_max_def pasted_code_env_def
          signed_out_def clock_2026_def truthy_def Let_def)
  from pasted_ok have pasted: "authenticate pasted_code_env signed_out
     = (Inr True, snd (authenticate pasted_code_env signed_out))"
    by (metis prod.collapse)
  from authenticate_session_expiry [OF good] stale
  have skew_good:
    "within_skew (now good_token_env) (snd (authenticate good_token_env signed_out))"
    by blast
  have lifetime: "\<And>g n r. token_post pasted_code_env g = Replies (n, Some r)
      \<Longrightarrow> expires_in_of r = 3600"
    by (auto simp: pasted_code_env_def expires_in_of_def split: grant.splits)
  from authenticate_session_expiry [OF pasted] lifetime
  have skew_pasted:
    "within_skew (now pasted_code_env) (snd (authenticate pasted_code_env signed_out))"
    by fastforce
  from good_ok skew_good pasted_ok expiry skew_pasted show ?thesis
    by (intro conjI)
qed

text \<open>
  C4 as stated fails: the stored token has expired, the refresh is answered with a token
  that lives 60 seconds, and \<open>authenticate\<close> returns \<open>True\<close> with a session that is within
  five minutes of its expiry and that its own validity check rejects.
\<close>

theorem short_lived_session_counterexample:
  "fst (authenticate short_lived_env signed_out) = Inr True
   \<and> \<not> within_skew (now short_lived_env) (snd (authenticate short_lived_env signed_out))
   \<and> is_token_valid short_lived_env (snd (authenticate short_lived_env signed_out))
       = Inr False"
  by (simp add: authenticate_def load_tokens_def is_token_valid_def
        refresh_access_token_def save_tokens_def expires_in_of_def timedelta_seconds_def
        datetime_add_def datetime_max_def five_minutes_def within_skew_def
        short_lived_env_def signed_out_def clock_2026_def truthy_def Let_def)

subsection \<open>The sync loop\<close>









subsection \<open>Batches of five, every file once, in order\<close>




subsection \<open>Stripping the prefix once and twice\<close>

lemma length_adobe_prefix: "length adobe_prefix = 12"
  by (simp add: adobe_prefix_def)

text \<open>
  C6 (as amended). A body that does not start with the literal prefix is returned
  unchanged, and stripping twice equals stripping once whenever the body left by the first
  strip does not itself start with the prefix. The code removes one occurrence of the prefix
  only, so the second strip of a body that carried the prefix twice removes the second one.
\<close>

theorem strip_adobe_prefix_absent_unchanged:
  "(\<not> prefix adobe_prefix body \<longrightarrow> strip_adobe_prefix body = body) \<and>
   (\<not> prefix adobe_prefix (strip_adobe_prefix body) \<longrightarrow>
      strip_adobe_prefix (strip_adobe_prefix body) = strip_adobe_prefix body)"
  by (simp add: strip_adobe_prefix_def)

theorem strip_adobe_prefix_absent_unchanged_witness:
  "\<not> prefix adobe_prefix ''[1]'' \<and> strip_adobe_prefix ''[1]'' = ''[1]'' \<and>
   \<not> prefix adobe_prefix (strip_adobe_prefix ''while (1) {}[1]'') \<and>
   strip_adobe_prefix (strip_adobe_prefix ''while (1) {}[1]'') =
     strip_adobe_prefix ''while (1) {}[1]''"
proof -
  have a: "\<not> prefix adobe_prefix ''[1]''"
    by (simp add: adobe_prefix_def)
  have b: "\<not> prefix adobe_prefix (strip_adobe_prefix ''while (1) {}[1]'')"
    by (simp add: adobe_prefix_def strip_adobe_prefix_def)
  from a b strip_adobe_prefix_absent_unchanged [of "''[1]''"]
    strip_adobe_prefix_absent_unchanged [of "''while (1) {}[1]''"]
  show ?thesis by blast
qed

text \<open>
  C6 as stated fails: for a body that starts with the prefix twice, the second strip still
  changes the result of the first.
\<close>

theorem strip_adobe_prefix_twice_counterexample:
  "strip_adobe_prefix (strip_adobe_prefix ''while (1) {}while (1) {}[1]'') \<noteq>
   strip_adobe_prefix ''while (1) {}while (1) {}[1]''"
  by (simp add: strip_adobe_prefix_def adobe_prefix_def)

subsection \<open>The folder path\<close>








subsection \<open>A file without id\<close>




subsection \<open>The album listing\<close>

lemma gets_append: "gets (xs @ ys) = gets xs @ gets ys"
  by (induction xs rule: gets.induct) simp_all

lemma list_albums_try_gets:
  assumes "list_albums_try b sel limit offset next_link t = (res, t')"
  shows "\<exists>a post. t' = t @ [Print (Album (MsgFetchingAlbums (albums_url sel next_link)
                                     (albums_params limit offset next_link))),
                      HttpGet (albums_url sel next_link) (sel_headers sel)
                        (albums_params limit offset next_link) a] @ post
           \<and> gets post = []"
  using assms
  by (auto simp: list_albums_try_def Let_def
           split: reply.splits if_splits next_entry.splits option.splits)

text \<open>
  C5. With a cursor (a non-empty \<open>next\_link\<close>) the offset and the limit have no effect
  on what \<open>list\_albums\<close> does: the one request it sends goes to the cursor's address with
  no query parameter. (Without a resolved catalog it sends nothing, whatever the
  arguments.)
\<close>

theorem cursor_overrides_offset_and_limit:
  assumes "next_link = Some link" and "link \<noteq> []"
  shows "list_albums b sel limit offset next_link t
           = list_albums b sel limit' offset' next_link t
     \<and> map (\<lambda>(url, ps, a). (url, ps))
          (gets (added t (snd (list_albums b sel limit offset next_link t))))
         = (if truthy (catalog_id sel) then [(link, [])] else [])"
proof -
  have p: "albums_params limit offset next_link = []"
          "albums_params limit' offset' next_link = []"
    and u: "albums_url sel next_link = link"
    using assms by (simp_all add: albums_params_def albums_url_def truthy_def)
  have same: "list_albums_try b sel limit offset next_link t
                = list_albums_try b sel limit' offset' next_link t"
    by (simp add: list_albums_try_def p)
  have sent: "map (\<lambda>(url, ps, a). (url, ps))
          (gets (added t (snd (list_albums b sel limit offset next_link t))))
         = (if truthy (catalog_id sel) then [(link, [])] else [])"
  proof (cases "truthy (catalog_id sel)")
    case False
    then show ?thesis by (simp add: list_albums_def)
  next
    case True
    obtain res t' where r: "list_albums_try b sel limit offset next_link t = (res, t')"
      by (cases "list_albums_try b sel limit offset next_link t") blast
    from list_albums_try_gets [OF r] obtain a post
      where "t' = t @ [Print (Album (MsgFetchingAlbums link [])),
                       HttpGet link (sel_headers sel) [] a] @ post"
        and "gets post = []"
      by (auto simp: p u)
    with True r show ?thesis
      by (cases res) (simp_all add: list_albums_def gets_append)
  qed
  from same sent show ?thesis
    by (simp add: list_albums_def)
qed

theorem cursor_overrides_offset_and_limit_witness:
  "list_albums (cursor_env 200) demo_selector (Some 25) 50
     (Some ''https://lr.adobe.io/v2/catalogs/cat/albums?after=a'') []
   = list_albums (cursor_env 200) demo_selector None 0
     (Some ''https://lr.adobe.io/v2/catalogs/cat/albums?after=a'') []
   \<and> map (\<lambda>(url, ps, a). (url, ps))
        (gets (added [] (snd (list_albums (cursor_env 200) demo_selector (Some 25) 50
           (Some ''https://lr.adobe.io/v2/catalogs/cat/albums?after=a'') []))))
       = [(''https://lr.adobe.io/v2/catalogs/cat/albums?after=a'', [])]
   \<and> map ai_id (fst (fst (list_albums (cursor_env 200) demo_selector (Some 25) 50
           (Some ''https://lr.adobe.io/v2/catalogs/cat/albums?after=a'') [])))
       = [Some ''album-1'']"
proof -
  have c: "Some ''https://lr.adobe.io/v2/catalogs/cat/albums?after=a''
             = Some ''https://lr.adobe.io/v2/catalogs/cat/albums?after=a''"
    and n: "''https://lr.adobe.io/v2/catalogs/cat/albums?after=a'' \<noteq> []"
    by simp_all
  have albums: "map ai_id (fst (fst (list_albums (cursor_env 200) demo_selector (Some 25) 50
           (Some ''https://lr.adobe.io/v2/catalogs/cat/albums?after=a'') [])))
       = [Some ''album-1'']"
    by (simp add: list_albums_def list_albums_try_def albums_url_def albums_params_def
          cursor_env_def demo_selector_def parse_adobe_response_def extract_album_info_def
          truthy_def Let_def)
  have cat: "truthy (catalog_id demo_selector)"
    by (simp add: demo_selector_def truthy_def)
  note inst = cursor_overrides_offset_and_limit [OF c n, of "cursor_env 200" demo_selector
      "Some 25" 50 "[]" None 0]
  from inst have same: "list_albums (cursor_env 200) demo_selector (Some 25) 50
     (Some ''https://lr.adobe.io/v2/catalogs/cat/albums?after=a'') []
   = list_albums (cursor_env 200) demo_selector None 0
     (Some ''https://lr.adobe.io/v2/catalogs/cat/albums?after=a'') []"
    by (rule conjunct1)
  from inst [THEN conjunct2] cat have sent: "map (\<lambda>(url, ps, a). (url, ps))
        (gets (added [] (snd (list_albums (cursor_env 200) demo_selector (Some 25) 50
           (Some ''https://lr.adobe.io/v2/catalogs/cat/albums?after=a'') []))))
       = [(''https://lr.adobe.io/v2/catalogs/cat/albums?after=a'', [])]"
    by (simp only: if_True)
  from same sent albums show ?thesis
    by (intro conjI)
qed

subsection \<open>A listing that fails\<close>



subsection \<open>No content, no upload\<close>




end
